theory Spec2Isabelle
  imports Main "HOL-Library.Multiset"
begin

section \<open>Domain types\<close>

text \<open>
  The enumerations and interfaces of the types module. The field \<^verbatim>\<open>_id\<close> is written
  \<open>v_id\<close>, \<open>p_id\<close> and \<open>b_id\<close> in the three records; the fields of \<^verbatim>\<open>BundleUpdate\<close> whose
  names it shares with the other two interfaces carry the prefix \<open>b_\<close>. An optional field
  is an \<open>option\<close>.

  \<^verbatim>\<open>uploadDate\<close> is declared a string (an ISO date from the backend). The code reads it only
  through \<^verbatim>\<open>new Date(v.uploadDate).getTime()\<close>, so the field holds that value: \<open>Some t\<close>, the
  milliseconds since the epoch, or \<open>None\<close> for the \<^verbatim>\<open>NaN\<close> of a text that is not a date.
\<close>

datatype Platform = Android | iOS

datatype DeploymentEnvironment = Development | Staging | Production

datatype RnPlatform = RnAndroid | RnIos
  \<comment> \<open>\<^verbatim>\<open>"android" | "ios"\<close>\<close>

record AppVersion =
  v_id :: string
  platform :: Platform
  versionName :: string
  buildNumber :: string
  fileName :: string
  fileSize :: string
  uploadDate :: "int option"
  releaseNotes :: "string option"
  downloadUrl :: string
  qrCodeValue :: string
  filePath :: string
  activeEnvironments :: "DeploymentEnvironment list"

record BundleUpdate =
  b_id :: string
  bundleVersion :: string
  b_platform :: RnPlatform
  bundleUrl :: string
  bundleHash :: string
  b_fileName :: string
  b_fileSize :: string
  b_filePath :: string
  b_description :: "string option"
  isMandatory :: "bool option"
  b_createdAt :: string

record Project =
  p_id :: string
  name :: string
  description :: "string option"
  createdAt :: string
  platforms :: "Platform list"
  versions :: "AppVersion list"
  rnPlatforms :: "RnPlatform list option"
  bundleUpdates :: "BundleUpdate list option"

section \<open>The backend's replies\<close>

text \<open>
  A request either rejects (transport failure, \<open>Inl\<close> of the error's message) or resolves
  to a response with a status and a body. Reading the body with \<^verbatim>\<open>response.json()\<close>
  either rejects (decode failure, \<open>Inl\<close> of the message) or gives the parsed value:
  \<open>None\<close> for \<^verbatim>\<open>null\<close>, of which no field can be read, or the envelope with its
  \<^verbatim>\<open>message\<close> field when present (as the text \<^verbatim>\<open>new Error\<close> makes of it) and its
  \<^verbatim>\<open>data\<close> field. For \<^verbatim>\<open>fetchProjects\<close> the
  \<^verbatim>\<open>data\<close> field may be missing; for the other operations that read it, it has the type
  the interface of the backend gives it.
\<close>

datatype 'd ApiBody = ApiBody (message: "string option") (data: 'd)

datatype 'd Response = Response (status: nat) (json: "string + 'd ApiBody option")

type_synonym 'd fetched = "string + 'd Response"

definition ok :: "'d Response \<Rightarrow> bool" where
  "ok response = (200 \<le> status response \<and> status response \<le> 299)"

definition digit :: "nat \<Rightarrow> char" where
  "digit n = ''0123456789'' ! n"

fun decimal :: "nat \<Rightarrow> string" where
  "decimal n = (if n < 10 then [digit n] else decimal (n div 10) @ [digit (n mod 10)])"

definition orElse :: "string \<Rightarrow> string \<Rightarrow> string" where
  \<comment> \<open>\<^verbatim>\<open>a || b\<close> on texts: the empty text is falsy.\<close>
  "orElse a b = (if a = [] then b else a)"

definition cannotRead :: "string \<Rightarrow> string" where
  \<comment> \<open>The message of the \<^verbatim>\<open>TypeError\<close> thrown on reading a field of \<^verbatim>\<open>null\<close>.\<close>
  "cannotRead field = ''Cannot read properties of null (reading '' @ [CHR 39] @ field @ [CHR 39] @ '')''"

definition handleApiResponse :: "'d Response \<Rightarrow> string + 'd ApiBody option" where
  \<comment> \<open>\<open>Inl e\<close>: an error with message \<open>e\<close> is thrown.\<close>
  "handleApiResponse response =
     (case json response of
        Inl e \<Rightarrow> Inl e
      | Inr parsed \<Rightarrow>
          if \<not> ok response then
            (case parsed of
               None \<Rightarrow> Inl (cannotRead ''message'')
             | Some body \<Rightarrow>
                 Inl (case message body of
                        Some m \<Rightarrow> orElse m (''HTTP error! status: '' @ decimal (status response))
                      | None \<Rightarrow> ''HTTP error! status: '' @ decimal (status response)))
          else Inr parsed)"

definition awaitApi :: "'d fetched \<Rightarrow> string + 'd ApiBody option" where
  \<comment> \<open>The two awaits that open every \<^verbatim>\<open>try\<close> block: the request, then \<^verbatim>\<open>handleApiResponse\<close>.
      \<open>Inl e\<close> is the message of the error that reaches the \<^verbatim>\<open>catch\<close>.\<close>
  "awaitApi fetched = (case fetched of Inl e \<Rightarrow> Inl e | Inr response \<Rightarrow> handleApiResponse response)"

definition readData :: "'d ApiBody option \<Rightarrow> string + 'd" where
  \<comment> \<open>\<^verbatim>\<open>apiResponse.data\<close>\<close>
  "readData apiResponse =
     (case apiResponse of None \<Rightarrow> Inl (cannotRead ''data'') | Some body \<Rightarrow> Inr (data body))"

definition awaitData :: "'d fetched \<Rightarrow> string + 'd" where
  \<comment> \<open>The awaits followed by the read of \<^verbatim>\<open>apiResponse.data\<close>, in the same \<^verbatim>\<open>try\<close> block.\<close>
  "awaitData fetched =
     (case awaitApi fetched of Inl e \<Rightarrow> Inl e | Inr apiResponse \<Rightarrow> readData apiResponse)"

definition failing :: "'d fetched \<Rightarrow> bool" where
  \<comment> \<open>Transport failure, response-body decode failure, or a status outside 200..299.\<close>
  "failing fetched =
     (case fetched of
        Inl e \<Rightarrow> True
      | Inr response \<Rightarrow> (case json response of Inl e \<Rightarrow> True | Inr body \<Rightarrow> \<not> ok response))"

section \<open>The state container\<close>

record state =
  projects :: "Project list"
  loading :: bool
  error :: "string option"

definition beginOperation :: "state \<Rightarrow> state" where
  \<comment> \<open>\<^verbatim>\<open>setLoading(true); setError(null);\<close>\<close>
  "beginOperation s = s\<lparr>loading := True, error := None\<rparr>"

definition fetchProjects :: "(Project list option) fetched \<Rightarrow> state \<Rightarrow> state" where
  \<comment> \<open>The \<^verbatim>\<open>data\<close> field is \<open>None\<close> when it is absent, null or otherwise falsy.\<close>
  "fetchProjects fetched s =
     (let s1 = beginOperation s in
      case awaitData fetched of
        Inr apiData \<Rightarrow>
          s1\<lparr>projects := (case apiData of Some ps \<Rightarrow> ps | None \<Rightarrow> []),
             loading := False\<rparr>
      | Inl e \<Rightarrow>
          s1\<lparr>error := Some (orElse e ''Failed to fetch projects.''),
             projects := [], loading := False\<rparr>)"

definition addProject :: "Project fetched \<Rightarrow> state \<Rightarrow> state \<times> Project option" where
  "addProject fetched s =
     (let s1 = beginOperation s in
      case awaitData fetched of
        Inr newProject \<Rightarrow>
          (s1\<lparr>projects := projects s1 @ [newProject], loading := False\<rparr>, Some newProject)
      | Inl e \<Rightarrow>
          (s1\<lparr>error := Some (orElse e ''Failed to add project.''), loading := False\<rparr>, None))"

definition deleteProject :: "'d fetched \<Rightarrow> string \<Rightarrow> state \<Rightarrow> state \<times> bool" where
  "deleteProject fetched projectId s =
     (let s1 = beginOperation s in
      case awaitApi fetched of
        Inr apiResponse \<Rightarrow>
          (s1\<lparr>projects := filter (\<lambda>p. p_id p \<noteq> projectId) (projects s1), loading := False\<rparr>,
           True)
      | Inl e \<Rightarrow>
          (s1\<lparr>error := Some (orElse e ''Failed to delete project.''), loading := False\<rparr>, False))"

definition updateProjectDetails ::
  "Project fetched \<Rightarrow> string \<Rightarrow> state \<Rightarrow> state \<times> Project option" where
  "updateProjectDetails fetched projectId s =
     (let s1 = beginOperation s in
      case awaitData fetched of
        Inr updatedProject \<Rightarrow>
          (s1\<lparr>projects := map (\<lambda>p. if p_id p = projectId then updatedProject else p) (projects s1),
               loading := False\<rparr>,
            Some updatedProject)
      | Inl e \<Rightarrow>
          (s1\<lparr>error := Some (orElse e ''Failed to update project.''), loading := False\<rparr>, None))"

definition getProjectById :: "state \<Rightarrow> string \<Rightarrow> Project option" where
  "getProjectById s projectId = find (\<lambda>p. p_id p = projectId) (projects s)"

subsection \<open>Sorting the versions of a project\<close>

text \<open>
  \<^verbatim>\<open>Array.prototype.sort\<close> with a comparator is a stable sort; a comparator result of
  \<^verbatim>\<open>NaN\<close> counts as zero. Where the comparator is a consistent order the result is the one
  stable arrangement, which insertion from the right computes. With an upload date that
  is not a date the comparator is no order and the arrangement depends on the engine:
  the statements about order below are for upload dates that are dates.
\<close>

definition byUploadDate :: "AppVersion \<Rightarrow> AppVersion \<Rightarrow> int option" where
  \<comment> \<open>\<^verbatim>\<open>(a, b) => new Date(b.uploadDate).getTime() - new Date(a.uploadDate).getTime()\<close>;
      \<open>None\<close> is \<^verbatim>\<open>NaN\<close>.\<close>
  "byUploadDate a b =
     (case uploadDate b of
        None \<Rightarrow> None
      | Some tb \<Rightarrow> (case uploadDate a of None \<Rightarrow> None | Some ta \<Rightarrow> Some (tb - ta)))"

definition staysBefore :: "('a \<Rightarrow> 'a \<Rightarrow> int option) \<Rightarrow> 'a \<Rightarrow> 'a \<Rightarrow> bool" where
  "staysBefore cmp x y = (case cmp x y of None \<Rightarrow> True | Some d \<Rightarrow> d \<le> 0)"

fun insertSorted :: "('a \<Rightarrow> 'a \<Rightarrow> int option) \<Rightarrow> 'a \<Rightarrow> 'a list \<Rightarrow> 'a list" where
  "insertSorted cmp x [] = [x]"
| "insertSorted cmp x (y # ys) =
     (if staysBefore cmp x y then x # y # ys else y # insertSorted cmp x ys)"

fun sortArray :: "('a \<Rightarrow> 'a \<Rightarrow> int option) \<Rightarrow> 'a list \<Rightarrow> 'a list" where
  "sortArray cmp [] = []"
| "sortArray cmp (x # xs) = insertSorted cmp x (sortArray cmp xs)"

definition notOlder :: "AppVersion \<Rightarrow> AppVersion \<Rightarrow> bool" where
  \<comment> \<open>Both upload dates are dates, and the first is not before the second.\<close>
  "notOlder a b =
     (case uploadDate a of
        None \<Rightarrow> False
      | Some ta \<Rightarrow> (case uploadDate b of None \<Rightarrow> False | Some tb \<Rightarrow> tb \<le> ta))"

subsection \<open>Operations on the versions of a project\<close>

text \<open>
  \<^verbatim>\<open>p.versions || []\<close> in \<^verbatim>\<open>addAppVersion\<close> is \<^verbatim>\<open>p.versions\<close> for every array, which is what
  the field holds by its declaration \<^verbatim>\<open>versions: AppVersion[]\<close>.
\<close>

definition addAppVersion :: "AppVersion fetched \<Rightarrow> string \<Rightarrow> state \<Rightarrow> state \<times> AppVersion option" where
  "addAppVersion fetched projectId s =
     (let s1 = beginOperation s in
      case awaitData fetched of
        Inr newVersion \<Rightarrow>
          (s1\<lparr>projects :=
                 map (\<lambda>p. if p_id p = projectId
                           then p\<lparr>versions := sortArray byUploadDate (newVersion # versions p)\<rparr>
                           else p)
                     (projects s1),
               loading := False\<rparr>,
            Some newVersion)
      | Inl e \<Rightarrow>
          (s1\<lparr>error := Some (orElse e ''Failed to add app version.''), loading := False\<rparr>, None))"

definition deleteAppVersion :: "'d fetched \<Rightarrow> string \<Rightarrow> string \<Rightarrow> state \<Rightarrow> state \<times> bool" where
  "deleteAppVersion fetched projectId versionId s =
     (let s1 = beginOperation s in
      case awaitApi fetched of
        Inr apiResponse \<Rightarrow>
          (s1\<lparr>projects :=
                 map (\<lambda>p. if p_id p = projectId
                           then p\<lparr>versions := filter (\<lambda>v. v_id v \<noteq> versionId) (versions p)\<rparr>
                           else p)
                     (projects s1),
               loading := False\<rparr>,
           True)
      | Inl e \<Rightarrow>
          (s1\<lparr>error := Some (orElse e ''Failed to delete app version.''), loading := False\<rparr>,
           False))"

definition updateVersionEnvironments ::
  "AppVersion fetched \<Rightarrow> string \<Rightarrow> string \<Rightarrow> state \<Rightarrow> state \<times> AppVersion option" where
  \<comment> \<open>The requested set travels in the request; \<open>fetched\<close> is the backend's answer to it.\<close>
  "updateVersionEnvironments fetched projectId versionId s =
     (let s1 = beginOperation s in
      case awaitData fetched of
        Inr updatedVersion \<Rightarrow>
          (s1\<lparr>projects :=
                 map (\<lambda>p. if p_id p = projectId
                           then p\<lparr>versions :=
                                    map (\<lambda>v. if v_id v = versionId then updatedVersion else v)
                                        (versions p)\<rparr>
                           else p)
                     (projects s1),
               loading := False\<rparr>,
            Some updatedVersion)
      | Inl e \<Rightarrow>
          (s1\<lparr>error := Some (orElse e ''Failed to update version environments.''),
              loading := False\<rparr>,
           None))"

section \<open>The project details page\<close>

definition updatedVersionsForProject ::
  "Project \<Rightarrow> AppVersion \<Rightarrow> string \<Rightarrow> DeploymentEnvironment \<Rightarrow> AppVersion list" where
  \<comment> \<open>The local constant of the activating branch of \<^verbatim>\<open>toggleVersionEnvironment\<close>.\<close>
  "updatedVersionsForProject project targetVersion versionId environment =
     map (\<lambda>v. if platform v = platform targetVersion \<and> v_id v \<noteq> versionId
               then v\<lparr>activeEnvironments := filter (\<lambda>e. e \<noteq> environment) (activeEnvironments v)\<rparr>
               else v)
         (versions project)"

definition toggleVersionEnvironment ::
  "(string \<Rightarrow> string \<Rightarrow> DeploymentEnvironment list \<Rightarrow> AppVersion fetched) \<Rightarrow>
   Project option \<Rightarrow> string \<Rightarrow> DeploymentEnvironment \<Rightarrow> state \<Rightarrow> state" where
  \<comment> \<open>\<open>backend\<close> answers the one request the function sends; \<open>project\<close> is the page's copy
      of the project. The result is the container's state when the function has returned.\<close>
  "toggleVersionEnvironment backend project versionId environment s =
     (case project of
        None \<Rightarrow> s
      | Some project \<Rightarrow>
          (case find (\<lambda>v. v_id v = versionId) (versions project) of
             None \<Rightarrow> s
           | Some targetVersion \<Rightarrow>
               (let isCurrentlyActive = environment \<in> set (activeEnvironments targetVersion);
                    newActiveEnvironments =
                      (if isCurrentlyActive
                       then filter (\<lambda>e. e \<noteq> environment) (activeEnvironments targetVersion)
                       else (let updatedVersions =
                                   updatedVersionsForProject project targetVersion versionId environment
                             in activeEnvironments targetVersion @ [environment]))
                in fst (updateVersionEnvironments
                          (backend (p_id project) versionId newActiveEnvironments)
                          (p_id project) versionId s))))"

definition activeIn :: "DeploymentEnvironment \<Rightarrow> Platform \<Rightarrow> Project \<Rightarrow> AppVersion list" where
  \<comment> \<open>The versions of a project, of one platform, that are active in an environment.\<close>
  "activeIn environment pf p =
     filter (\<lambda>v. platform v = pf \<and> environment \<in> set (activeEnvironments v)) (versions p)"

text \<open>The scenario of the specification: project P, Android versions V1 (Staging active) and V2.\<close>

definition scenarioV1 :: AppVersion where
  "scenarioV1 =
     \<lparr>v_id = ''V1'', platform = Android, versionName = ''1.0.0'', buildNumber = ''1'',
      fileName = ''app-1.apk'', fileSize = ''1 MB'', uploadDate = Some 1000,
      releaseNotes = None, downloadUrl = ''http://localhost:3000/uploads/app-1.apk'',
      qrCodeValue = ''http://localhost:3000/uploads/app-1.apk'', filePath = ''uploads/app-1.apk'',
      activeEnvironments = [Staging]\<rparr>"

definition scenarioV2 :: AppVersion where
  "scenarioV2 =
     \<lparr>v_id = ''V2'', platform = Android, versionName = ''1.1.0'', buildNumber = ''2'',
      fileName = ''app-2.apk'', fileSize = ''1 MB'', uploadDate = Some 2000,
      releaseNotes = None, downloadUrl = ''http://localhost:3000/uploads/app-2.apk'',
      qrCodeValue = ''http://localhost:3000/uploads/app-2.apk'', filePath = ''uploads/app-2.apk'',
      activeEnvironments = []\<rparr>"

definition scenarioP :: Project where
  "scenarioP =
     \<lparr>p_id = ''P'', name = ''Demo'', description = None, createdAt = ''2024-01-01'',
      platforms = [Android], versions = [scenarioV2, scenarioV1],
      rnPlatforms = None, bundleUpdates = None\<rparr>"

definition scenarioState :: state where
  "scenarioState = \<lparr>projects = [scenarioP], loading = False, error = None\<rparr>"

definition scenarioBackend ::
  "string \<Rightarrow> string \<Rightarrow> DeploymentEnvironment list \<Rightarrow> AppVersion fetched" where
  \<comment> \<open>Modelled from the spec: the backend is an external service. Its
      \<^verbatim>\<open>PUT /projects/:id/versions/:versionId/environments\<close> answers with the version carrying
      the requested set (section 6); here for the versions of the scenario.\<close>
  "scenarioBackend projectId versionId envs =
     (case find (\<lambda>v. v_id v = versionId) (versions scenarioP) of
        Some v \<Rightarrow>
          if projectId = p_id scenarioP
          then Inr (Response 200 (Inr (Some (ApiBody None (v\<lparr>activeEnvironments := envs\<rparr>)))))
          else Inl ''Failed to fetch''
      | None \<Rightarrow> Inl ''Failed to fetch'')"

section \<open>The generative-text service\<close>

datatype thrown = ErrorInstance string | OtherValue string
  \<comment> \<open>What a rejected request throws: an \<^verbatim>\<open>Error\<close> with its message, or another value with its
      \<^verbatim>\<open>String(error)\<close>.\<close>

definition unavailableNotes :: string where
  "unavailableNotes =
     ''AI-generated release notes are unavailable. Please provide an API_KEY or write them manually.''"

definition generateReleaseNotes ::
  "string option \<Rightarrow> (string \<Rightarrow> thrown + string) \<Rightarrow> string \<Rightarrow> string + string" where
  \<comment> \<open>\<open>API_KEY\<close> is \<^verbatim>\<open>process.env.API_KEY\<close>; \<open>generateContent\<close> is the outcome of
      \<^verbatim>\<open>ai.models.generateContent\<close> on a prompt, \<open>Inr\<close> of \<^verbatim>\<open>response.text\<close>. The result is
      \<open>Inr\<close> of the returned text or \<open>Inl\<close> of the message of the \<^verbatim>\<open>Error\<close> thrown.\<close>
  "generateReleaseNotes API_KEY generateContent prompt =
     (if API_KEY = None \<or> API_KEY = Some [] then Inr unavailableNotes
      else
        (case generateContent prompt of
           Inr text \<Rightarrow> Inr text
         | Inl err \<Rightarrow>
             Inl (''Failed to generate content: '' @
                  (case err of ErrorInstance m \<Rightarrow> m | OtherValue str \<Rightarrow> str))))"

definition quotaExceeded :: "string \<Rightarrow> thrown + string" where
  \<comment> \<open>A service whose every request fails.\<close>
  "quotaExceeded prompt = Inl (ErrorInstance ''quota exceeded'')"

section \<open>Outcomes of a request\<close>

definition errorSet :: "state \<Rightarrow> bool" where
  \<comment> \<open>The error field holds a non-empty text.\<close>
  "errorSet s = (case error s of None \<Rightarrow> False | Some m \<Rightarrow> m \<noteq> [])"

definition transportFailure :: "'d fetched" where
  "transportFailure = Inl ''Failed to fetch''"

definition serverError :: "'d \<Rightarrow> 'd fetched" where
  \<comment> \<open>A status outside 200..299 whose body has no message.\<close>
  "serverError d = Inr (Response 500 (Inr (Some (ApiBody None d))))"

definition notFound :: "'d \<Rightarrow> 'd fetched" where
  "notFound d = Inr (Response 404 (Inr (Some (ApiBody (Some ''Project not found'') d))))"

definition undecodable :: "'d fetched" where
  \<comment> \<open>A response whose body is not JSON; the parser's message is empty here.\<close>
  "undecodable = Inr (Response 200 (Inl []))"

definition scenarioV0 :: AppVersion where
  \<comment> \<open>A version whose upload date lies before those of the scenario's versions.\<close>
  "scenarioV0 = scenarioV1\<lparr>v_id := ''V0'', uploadDate := Some 500, activeEnvironments := []\<rparr>"

definition scenarioV3 :: AppVersion where
  \<comment> \<open>A version uploaded after those of the scenario.\<close>
  "scenarioV3 = scenarioV1\<lparr>v_id := ''V3'', uploadDate := Some 3000, activeEnvironments := []\<rparr>"

definition relabelledV1 :: AppVersion where
  \<comment> \<open>A record the backend may return for V1: besides the set of active environments it
      differs from the cached record in identifier, platform and version name.\<close>
  "relabelledV1 =
     scenarioV1\<lparr>v_id := ''V9'', platform := iOS, versionName := ''9.9.9'',
                activeEnvironments := [Production]\<rparr>"

section \<open>Auxiliary facts\<close>

lemma failing_awaitApi: "failing f \<Longrightarrow> \<exists>e. awaitApi f = Inl e"
  by (auto simp: failing_def awaitApi_def handleApiResponse_def split: sum.splits option.splits)

lemma failing_awaitData: "failing f \<Longrightarrow> \<exists>e. awaitData f = Inl e"
  using failing_awaitApi [of f] by (auto simp: awaitData_def)

lemma awaitApi_success:
  "ok response \<Longrightarrow> json response = Inr parsed \<Longrightarrow> awaitApi (Inr response) = Inr parsed"
  by (simp add: awaitApi_def handleApiResponse_def)

lemma awaitData_success:
  "ok response \<Longrightarrow> json response = Inr (Some body) \<Longrightarrow>
   awaitData (Inr response) = Inr (data body)"
  by (simp add: awaitData_def readData_def awaitApi_success)

lemma map_no_match:
  "\<forall>p\<in>set ps. p_id p \<noteq> projectId \<Longrightarrow> map (\<lambda>p. if p_id p = projectId then f p else p) ps = ps"
  by (induction ps) auto

lemma mset_insertSorted: "mset (insertSorted cmp x xs) = add_mset x (mset xs)"
  by (induction xs) auto

lemma mset_sortArray: "mset (sortArray cmp xs) = mset xs"
  by (induction xs) (auto simp: mset_insertSorted)

lemma set_insertSorted: "set (insertSorted cmp x xs) = insert x (set xs)"
  by (induction xs) auto

lemma set_sortArray: "set (sortArray cmp xs) = set xs"
  by (induction xs) (auto simp: set_insertSorted)

lemma staysBefore_byUploadDate:
  "uploadDate a \<noteq> None \<Longrightarrow> uploadDate b \<noteq> None \<Longrightarrow> staysBefore byUploadDate a b = notOlder a b"
  by (auto simp: staysBefore_def byUploadDate_def notOlder_def split: option.splits)

lemma notOlder_total:
  "uploadDate a \<noteq> None \<Longrightarrow> uploadDate b \<noteq> None \<Longrightarrow> \<not> notOlder a b \<Longrightarrow> notOlder b a"
  by (auto simp: notOlder_def split: option.splits)

lemma notOlder_trans: "notOlder a b \<Longrightarrow> notOlder b c \<Longrightarrow> notOlder a c"
  by (auto simp: notOlder_def split: option.splits)

lemma sorted_insertSorted:
  "uploadDate x \<noteq> None \<Longrightarrow> \<forall>v\<in>set xs. uploadDate v \<noteq> None \<Longrightarrow> sorted_wrt notOlder xs \<Longrightarrow>
   sorted_wrt notOlder (insertSorted byUploadDate x xs)"
proof (induction xs)
  case Nil
  then show ?case by simp
next
  case (Cons y ys)
  show ?case
  proof (cases "notOlder x y")
    case True
    then have "\<forall>v\<in>set ys. notOlder x v"
      using Cons.prems(3) notOlder_trans by auto
    with True Cons.prems show ?thesis
      by (simp add: staysBefore_byUploadDate)
  next
    case False
    then have "notOlder y x"
      using Cons.prems notOlder_total by simp
    moreover have "sorted_wrt notOlder (insertSorted byUploadDate x ys)"
      using Cons by simp
    ultimately show ?thesis
      using False Cons.prems by (auto simp: staysBefore_byUploadDate set_insertSorted)
  qed
qed

lemma sorted_sortArray:
  "\<forall>v\<in>set xs. uploadDate v \<noteq> None \<Longrightarrow> sorted_wrt notOlder (sortArray byUploadDate xs)"
  by (induction xs) (auto simp: sorted_insertSorted set_sortArray)

lemma staysBefore_notOlder: "notOlder a b \<Longrightarrow> staysBefore byUploadDate a b"
  by (auto simp: staysBefore_def byUploadDate_def notOlder_def split: option.splits)

lemma insertSorted_newest:
  "\<forall>v\<in>set xs. notOlder x v \<Longrightarrow> insertSorted byUploadDate x xs = x # xs"
  by (cases xs) (simp_all add: staysBefore_notOlder)

lemma sortArray_sorted:
  "sorted_wrt notOlder xs \<Longrightarrow> sortArray byUploadDate xs = xs"
  by (induction xs) (simp_all add: insertSorted_newest)

section \<open>Fetching the projects\<close>

text \<open>
  Claim C6. After \<^verbatim>\<open>fetchProjects()\<close> succeeds (a response with a status in 200..299 whose
  body decodes and carries a list in \<^verbatim>\<open>data\<close>), the cached list of projects is the list
  the server returned, in the server's order, whatever the cache held before; the error
  is null and loading has ended.
\<close>

theorem fetchProjects_success:
  assumes "ok response" and "json response = Inr (Some body)" and "data body = Some ps"
  shows "projects (fetchProjects (Inr response) s) = ps
       \<and> error (fetchProjects (Inr response) s) = None
       \<and> loading (fetchProjects (Inr response) s) = False"
  using assms by (simp add: fetchProjects_def awaitApi_success awaitData_success beginOperation_def)

theorem fetchProjects_success_witness:
  "ok (Response 200 (Inr (Some (ApiBody None (Some [scenarioP, scenarioP\<lparr>p_id := ''A''\<rparr>])))))
   \<and> projects (fetchProjects (Inr (Response 200 (Inr (Some (ApiBody None (Some [scenarioP, scenarioP\<lparr>p_id := ''A''\<rparr>]))))))
        \<lparr>projects = [], loading = True, error = None\<rparr>) = [scenarioP, scenarioP\<lparr>p_id := ''A''\<rparr>]"
proof -
  have h: "ok (Response 200 (Inr (Some (ApiBody None (Some [scenarioP, scenarioP\<lparr>p_id := ''A''\<rparr>])))))"
    by (simp add: ok_def)
  show ?thesis
    using h fetchProjects_success [OF h, of "ApiBody None (Some [scenarioP, scenarioP\<lparr>p_id := ''A''\<rparr>])"
        "[scenarioP, scenarioP\<lparr>p_id := ''A''\<rparr>]" "\<lparr>projects = [], loading = True, error = None\<rparr>"]
    by simp
qed

text \<open>
  Claim C10. When \<^verbatim>\<open>fetchProjects\<close> receives a response with a status in 200..299 whose
  parsed body has no \<^verbatim>\<open>data\<close> (absent, null or otherwise falsy), the operation counts as a
  success: the cached list becomes the empty list and the error stays null. (The body
  itself is not \<^verbatim>\<open>null\<close>: reading \<^verbatim>\<open>data\<close> of \<^verbatim>\<open>null\<close> throws.)
\<close>

theorem fetchProjects_missing_data:
  assumes "ok response" and "json response = Inr (Some body)" and "data body = None"
  shows "projects (fetchProjects (Inr response) s) = []
       \<and> error (fetchProjects (Inr response) s) = None"
  using assms by (simp add: fetchProjects_def awaitApi_success awaitData_success beginOperation_def)

theorem fetchProjects_missing_data_witness:
  "ok (Response 200 (Inr (Some (ApiBody None (None :: Project list option)))))
   \<and> projects (fetchProjects (Inr (Response 200 (Inr (Some (ApiBody None None))))) scenarioState) = []
   \<and> error (fetchProjects (Inr (Response 200 (Inr (Some (ApiBody None None))))) scenarioState) = None"
proof -
  have h: "ok (Response 200 (Inr (Some (ApiBody None (None :: Project list option)))))"
    by (simp add: ok_def)
  show ?thesis
    using h fetchProjects_missing_data [OF h, of "ApiBody None None" scenarioState]
    by simp
qed

section \<open>Deleting a project\<close>

text \<open>
  Claim C7. After a successful \<^verbatim>\<open>deleteProject(projectId)\<close> no project with that identifier
  remains in the cached list, every project with another identifier is kept as it was
  (as often as before, and in the same order), and the operation returns true; on a
  failing outcome it returns false.
\<close>

theorem deleteProject_removes:
  assumes "ok response" and "json response = Inr body"
  shows "snd (deleteProject (Inr response) projectId s) = True
       \<and> (\<forall>p\<in>set (projects (fst (deleteProject (Inr response) projectId s))). p_id p \<noteq> projectId)
       \<and> (\<forall>p. p_id p \<noteq> projectId \<longrightarrow>
              count_list (projects (fst (deleteProject (Inr response) projectId s))) p
                = count_list (projects s) p)
       \<and> projects (fst (deleteProject (Inr response) projectId s))
           = filter (\<lambda>p. p_id p \<noteq> projectId) (projects s)
       \<and> (failing fetched \<longrightarrow> snd (deleteProject fetched projectId s) = False)"
proof -
  have del: "deleteProject (Inr response) projectId s
      = (s\<lparr>loading := False, error := None,
            projects := filter (\<lambda>p. p_id p \<noteq> projectId) (projects s)\<rparr>, True)"
    using assms by (simp add: deleteProject_def awaitApi_success awaitData_success beginOperation_def)
  have cnt: "\<And>p ps. p_id p \<noteq> projectId \<Longrightarrow>
      count_list (filter (\<lambda>p. p_id p \<noteq> projectId) ps) p = count_list ps (p::Project)"
  proof -
    fix p :: Project and ps
    assume "p_id p \<noteq> projectId"
    then show "count_list (filter (\<lambda>p. p_id p \<noteq> projectId) ps) p = count_list ps p"
      by (induction ps) auto
  qed
  have fl: "failing fetched \<longrightarrow> snd (deleteProject fetched projectId s) = False"
  proof
    assume "failing fetched"
    then obtain e where "awaitApi fetched = Inl e"
      using failing_awaitApi by blast
    then show "snd (deleteProject fetched projectId s) = False"
      by (simp add: deleteProject_def)
  qed
  show ?thesis
    using cnt fl by (simp add: del)
qed

theorem deleteProject_removes_witness:
  "ok (Response 200 (Inr (Some (ApiBody None ()))))
   \<and> snd (deleteProject (Inr (Response 200 (Inr (Some (ApiBody None ()))))) ''P''
          \<lparr>projects = [scenarioP, scenarioP\<lparr>p_id := ''A''\<rparr>], loading = False, error = None\<rparr>) = True
   \<and> projects (fst (deleteProject (Inr (Response 200 (Inr (Some (ApiBody None ()))))) ''P''
          \<lparr>projects = [scenarioP, scenarioP\<lparr>p_id := ''A''\<rparr>], loading = False, error = None\<rparr>))
       = [scenarioP\<lparr>p_id := ''A''\<rparr>]
   \<and> failing (Inr (Response 404 (Inr (Some (ApiBody (Some ''Project not found'') ())))))
   \<and> snd (deleteProject (Inr (Response 404 (Inr (Some (ApiBody (Some ''Project not found'') ()))))) ''P''
          \<lparr>projects = [scenarioP, scenarioP\<lparr>p_id := ''A''\<rparr>], loading = False, error = None\<rparr>) = False"
proof -
  have h: "ok (Response 200 (Inr (Some (ApiBody None ()))))"
    by (simp add: ok_def)
  have f: "failing (Inr (Response 404 (Inr (Some (ApiBody (Some ''Project not found'') ())))))"
    by (simp add: failing_def ok_def)
  show ?thesis
    using h f deleteProject_removes [OF h, of "Some (ApiBody None ())" "''P''"
        "\<lparr>projects = [scenarioP, scenarioP\<lparr>p_id := ''A''\<rparr>], loading = False, error = None\<rparr>"
        "Inr (Response 404 (Inr (Some (ApiBody (Some ''Project not found'') ()))))"]
    by (simp add: scenarioP_def)
qed

section \<open>Looking a project up\<close>

text \<open>
  Claim C8. \<^verbatim>\<open>getProjectById(projectId)\<close> is a lookup over the cached list alone: it takes no
  reply of the backend, gives undefined exactly when no cached project has the
  identifier, gives otherwise the first cached project with it, and does not depend
  on the loading and error fields; so two calls over the same cached list give the
  same result.
\<close>

theorem getProjectById_lookup:
  "(getProjectById s projectId = None \<longleftrightarrow> (\<forall>p\<in>set (projects s). p_id p \<noteq> projectId))
   \<and> (\<forall>p. getProjectById s projectId = Some p \<longrightarrow>
          p \<in> set (projects s) \<and> p_id p = projectId
          \<and> (\<exists>i<length (projects s). projects s ! i = p \<and> (\<forall>j<i. p_id (projects s ! j) \<noteq> projectId)))
   \<and> getProjectById (s\<lparr>loading := l, error := e\<rparr>) projectId = getProjectById s projectId"
  by (auto simp: getProjectById_def find_None_iff find_Some_iff)

theorem getProjectById_lookup_witness:
  "getProjectById scenarioState ''Q'' = None
   \<and> getProjectById scenarioState ''P'' = Some scenarioP
   \<and> getProjectById (scenarioState\<lparr>loading := True, error := Some ''x''\<rparr>) ''P''
       = getProjectById scenarioState ''P''"
proof -
  have ps: "projects scenarioState = [scenarioP]"
    by (simp add: scenarioState_def)
  have idP: "p_id scenarioP = ''P''"
    by (simp add: scenarioP_def)
  have "\<forall>p\<in>set (projects scenarioState). p_id p \<noteq> ''Q''"
    by (simp add: ps idP)
  then have q: "getProjectById scenarioState ''Q'' = None"
    using getProjectById_lookup [where s = scenarioState and projectId = "''Q''"] by blast
  have p: "getProjectById scenarioState ''P'' = Some scenarioP"
    by (simp add: getProjectById_def ps idP)
  have r: "getProjectById (scenarioState\<lparr>loading := True, error := Some ''x''\<rparr>) ''P''
       = getProjectById scenarioState ''P''"
    using getProjectById_lookup [where s = scenarioState and projectId = "''P''"
      and l = True and e = "Some ''x''"] by blast
  show ?thesis
    using q p r by blast
qed

section \<open>Success without a cached project\<close>

text \<open>
  Claim C9. When the server answers with success but no cached project has the given
  identifier, \<^verbatim>\<open>addAppVersion\<close> and \<^verbatim>\<open>updateVersionEnvironments\<close> return the version the
  server sent and \<^verbatim>\<open>deleteAppVersion\<close> returns true, while the cached list of projects is
  left as it was.
\<close>

theorem success_without_cached_project:
  assumes "\<forall>p\<in>set (projects s). p_id p \<noteq> projectId"
    and "ok addResponse" and "json addResponse = Inr (Some addBody)"
    and "ok deleteResponse" and "json deleteResponse = Inr deleteBody"
    and "ok updateResponse" and "json updateResponse = Inr (Some updateBody)"
  shows "snd (addAppVersion (Inr addResponse) projectId s) = Some (data addBody)
       \<and> projects (fst (addAppVersion (Inr addResponse) projectId s)) = projects s
       \<and> snd (deleteAppVersion (Inr deleteResponse) projectId versionId s) = True
       \<and> projects (fst (deleteAppVersion (Inr deleteResponse) projectId versionId s)) = projects s
       \<and> snd (updateVersionEnvironments (Inr updateResponse) projectId versionId s)
           = Some (data updateBody)
       \<and> projects (fst (updateVersionEnvironments (Inr updateResponse) projectId versionId s))
           = projects s"
  using assms
  by (simp add: addAppVersion_def deleteAppVersion_def updateVersionEnvironments_def
      awaitApi_success awaitData_success beginOperation_def map_no_match)

theorem success_without_cached_project_witness:
  "''Q'' \<notin> set (map p_id (projects scenarioState))
   \<and> ok (Response 201 (Inr (Some (ApiBody None scenarioV1))))
   \<and> ok (Response 200 (Inr (Some (ApiBody None ()))))
   \<and> snd (addAppVersion (Inr (Response 201 (Inr (Some (ApiBody None scenarioV1))))) ''Q'' scenarioState)
       = Some scenarioV1
   \<and> projects (fst (addAppVersion (Inr (Response 201 (Inr (Some (ApiBody None scenarioV1))))) ''Q'' scenarioState))
       = [scenarioP]
   \<and> snd (deleteAppVersion (Inr (Response 200 (Inr (Some (ApiBody None ()))))) ''Q'' ''V1'' scenarioState) = True
   \<and> projects (fst (deleteAppVersion (Inr (Response 200 (Inr (Some (ApiBody None ()))))) ''Q'' ''V1'' scenarioState))
       = [scenarioP]
   \<and> snd (updateVersionEnvironments (Inr (Response 201 (Inr (Some (ApiBody None scenarioV1))))) ''Q'' ''V1''
          scenarioState) = Some scenarioV1
   \<and> projects (fst (updateVersionEnvironments (Inr (Response 201 (Inr (Some (ApiBody None scenarioV1))))) ''Q'' ''V1''
          scenarioState)) = [scenarioP]"
proof -
  have n: "\<forall>p\<in>set (projects scenarioState). p_id p \<noteq> ''Q''"
    by (simp add: scenarioState_def scenarioP_def)
  have a: "ok (Response 201 (Inr (Some (ApiBody None scenarioV1))))"
    by (simp add: ok_def)
  have d: "ok (Response 200 (Inr (Some (ApiBody None ()))))"
    by (simp add: ok_def)
  have s: "projects scenarioState = [scenarioP]"
    by (simp add: scenarioState_def)
  have m: "''Q'' \<notin> set (map p_id (projects scenarioState))"
    by (simp add: scenarioState_def scenarioP_def)
  show ?thesis
    using m a d success_without_cached_project [OF n a _ d _ a, of "ApiBody None scenarioV1"
        "Some (ApiBody None ())" "ApiBody None scenarioV1" "''V1''"]
    by (simp add: s)
qed

section \<open>Failing outcomes\<close>

text \<open>
  Claim C4. For every operation of the container that sends a request, and every failing
  outcome of that request (transport failure, a status outside 200..299, or a body that
  does not decode): the cached list of projects is left as it was, except for
  \<^verbatim>\<open>fetchProjects\<close>, which empties it; the error field holds a non-empty text; and the
  failure reaches the caller as the returned value null or false, not as an exception
  (\<^verbatim>\<open>fetchProjects\<close> returns nothing in either case).
\<close>

theorem failing_outcome_contract:
  assumes "failing fetchReply" and "failing addReply" and "failing deleteReply"
    and "failing updateReply" and "failing addVersionReply" and "failing deleteVersionReply"
    and "failing environmentsReply"
  shows "projects (fetchProjects fetchReply s) = [] \<and> errorSet (fetchProjects fetchReply s)
       \<and> projects (fst (addProject addReply s)) = projects s
       \<and> errorSet (fst (addProject addReply s))
       \<and> snd (addProject addReply s) = None
       \<and> projects (fst (deleteProject deleteReply projectId s)) = projects s
       \<and> errorSet (fst (deleteProject deleteReply projectId s))
       \<and> snd (deleteProject deleteReply projectId s) = False
       \<and> projects (fst (updateProjectDetails updateReply projectId s)) = projects s
       \<and> errorSet (fst (updateProjectDetails updateReply projectId s))
       \<and> snd (updateProjectDetails updateReply projectId s) = None
       \<and> projects (fst (addAppVersion addVersionReply projectId s)) = projects s
       \<and> errorSet (fst (addAppVersion addVersionReply projectId s))
       \<and> snd (addAppVersion addVersionReply projectId s) = None
       \<and> projects (fst (deleteAppVersion deleteVersionReply projectId versionId s)) = projects s
       \<and> errorSet (fst (deleteAppVersion deleteVersionReply projectId versionId s))
       \<and> snd (deleteAppVersion deleteVersionReply projectId versionId s) = False
       \<and> projects (fst (updateVersionEnvironments environmentsReply projectId versionId s)) = projects s
       \<and> errorSet (fst (updateVersionEnvironments environmentsReply projectId versionId s))
       \<and> snd (updateVersionEnvironments environmentsReply projectId versionId s) = None"
proof -
  obtain e1 where e1: "awaitData fetchReply = Inl e1"
    using assms(1) failing_awaitData by blast
  obtain e2 where e2: "awaitData addReply = Inl e2"
    using assms(2) failing_awaitData by blast
  obtain e3 where e3: "awaitApi deleteReply = Inl e3"
    using assms(3) failing_awaitApi by blast
  obtain e4 where e4: "awaitData updateReply = Inl e4"
    using assms(4) failing_awaitData by blast
  obtain e5 where e5: "awaitData addVersionReply = Inl e5"
    using assms(5) failing_awaitData by blast
  obtain e6 where e6: "awaitApi deleteVersionReply = Inl e6"
    using assms(6) failing_awaitApi by blast
  obtain e7 where e7: "awaitData environmentsReply = Inl e7"
    using assms(7) failing_awaitData by blast
  have c1: "projects (fetchProjects fetchReply s) = [] \<and> errorSet (fetchProjects fetchReply s)"
    by (simp add: fetchProjects_def e1 beginOperation_def errorSet_def orElse_def)
  have c2: "projects (fst (addProject addReply s)) = projects s
       \<and> errorSet (fst (addProject addReply s)) \<and> snd (addProject addReply s) = None"
    by (simp add: addProject_def e2 beginOperation_def errorSet_def orElse_def)
  have c3: "projects (fst (deleteProject deleteReply projectId s)) = projects s
       \<and> errorSet (fst (deleteProject deleteReply projectId s))
       \<and> snd (deleteProject deleteReply projectId s) = False"
    by (simp add: deleteProject_def e3 beginOperation_def errorSet_def orElse_def)
  have c4: "projects (fst (updateProjectDetails updateReply projectId s)) = projects s
       \<and> errorSet (fst (updateProjectDetails updateReply projectId s))
       \<and> snd (updateProjectDetails updateReply projectId s) = None"
    by (simp add: updateProjectDetails_def e4 beginOperation_def errorSet_def orElse_def)
  have c5: "projects (fst (addAppVersion addVersionReply projectId s)) = projects s
       \<and> errorSet (fst (addAppVersion addVersionReply projectId s))
       \<and> snd (addAppVersion addVersionReply projectId s) = None"
    by (simp add: addAppVersion_def e5 beginOperation_def errorSet_def orElse_def)
  have c6: "projects (fst (deleteAppVersion deleteVersionReply projectId versionId s)) = projects s
       \<and> errorSet (fst (deleteAppVersion deleteVersionReply projectId versionId s))
       \<and> snd (deleteAppVersion deleteVersionReply projectId versionId s) = False"
    by (simp add: deleteAppVersion_def e6 beginOperation_def errorSet_def orElse_def)
  have c7: "projects (fst (updateVersionEnvironments environmentsReply projectId versionId s)) = projects s
       \<and> errorSet (fst (updateVersionEnvironments environmentsReply projectId versionId s))
       \<and> snd (updateVersionEnvironments environmentsReply projectId versionId s) = None"
    by (simp add: updateVersionEnvironments_def e7 beginOperation_def errorSet_def orElse_def)
  show ?thesis
    using c1 c2 c3 c4 c5 c6 c7 by blast
qed

theorem failing_outcome_contract_witness:
  "failing (transportFailure :: (Project list option) fetched)
   \<and> failing (serverError scenarioP) \<and> failing (notFound ())
   \<and> failing (undecodable :: Project fetched) \<and> failing (serverError scenarioV1)
   \<and> failing (undecodable :: unit fetched) \<and> failing (notFound scenarioV1)
   \<and> projects (fetchProjects transportFailure scenarioState) = []
   \<and> error (fetchProjects transportFailure scenarioState) = Some ''Failed to fetch''
   \<and> addProject (serverError scenarioP) scenarioState
       = (scenarioState\<lparr>error := Some ''HTTP error! status: 500''\<rparr>, None)
   \<and> deleteProject (notFound ()) ''P'' scenarioState
       = (scenarioState\<lparr>error := Some ''Project not found''\<rparr>, False)
   \<and> updateProjectDetails undecodable ''P'' scenarioState
       = (scenarioState\<lparr>error := Some ''Failed to update project.''\<rparr>, None)
   \<and> addAppVersion (serverError scenarioV1) ''P'' scenarioState
       = (scenarioState\<lparr>error := Some ''HTTP error! status: 500''\<rparr>, None)
   \<and> deleteAppVersion (undecodable :: unit fetched) ''P'' ''V1'' scenarioState
       = (scenarioState\<lparr>error := Some ''Failed to delete app version.''\<rparr>, False)
   \<and> updateVersionEnvironments (notFound scenarioV1) ''P'' ''V1'' scenarioState
       = (scenarioState\<lparr>error := Some ''Project not found''\<rparr>, None)"
proof -
  have f1: "failing (transportFailure :: (Project list option) fetched)"
    by (simp add: failing_def transportFailure_def)
  have f2: "failing (serverError scenarioP)"
    by (simp add: failing_def serverError_def ok_def)
  have f3: "failing (notFound ())"
    by (simp add: failing_def notFound_def ok_def)
  have f4: "failing (undecodable :: Project fetched)"
    by (simp add: failing_def undecodable_def)
  have f5: "failing (serverError scenarioV1)"
    by (simp add: failing_def serverError_def ok_def)
  have f6: "failing (undecodable :: unit fetched)"
    by (simp add: failing_def undecodable_def)
  have f7: "failing (notFound scenarioV1)"
    by (simp add: failing_def notFound_def ok_def)
  note c = failing_outcome_contract [OF f1 f2 f3 f4 f5 f6 f7, of scenarioState "''P''" "''V1''"]
  show ?thesis
    using f1 f2 f3 f4 f5 f6 f7 c
    by (simp add: fetchProjects_def addProject_def deleteProject_def updateProjectDetails_def
        addAppVersion_def deleteAppVersion_def updateVersionEnvironments_def
        awaitApi_def awaitData_def readData_def handleApiResponse_def ok_def orElse_def beginOperation_def
        transportFailure_def serverError_def notFound_def undecodable_def scenarioState_def digit_def)
qed

section \<open>Drafting release notes\<close>

text \<open>
  Claim C2, as stated: for every prompt \<^verbatim>\<open>generateReleaseNotes\<close> returns generated text or a
  fixed placeholder, and both absent credentials and a failing request give a
  placeholder rather than an exception. With a key configured and a request that fails,
  the function throws.
\<close>

theorem generateReleaseNotes_throws:
  "generateReleaseNotes (Some ''key'') quotaExceeded ''Generate release notes''
     = Inl ''Failed to generate content: quota exceeded''"
  by (simp add: generateReleaseNotes_def quotaExceeded_def)

text \<open>
  Claim C2, amended. For every prompt: without an API key (absent or empty)
  \<^verbatim>\<open>generateReleaseNotes\<close> returns the fixed placeholder text and sends no request; with a
  key it returns the generated text when the request succeeds, and when the request
  fails it throws an \<^verbatim>\<open>Error\<close> whose message is \<^verbatim>\<open>Failed to generate content: \<close> followed by
  the message (or the text) of what the request threw.
\<close>

theorem generateReleaseNotes_outcomes:
  "(API_KEY = None \<or> API_KEY = Some [] \<longrightarrow>
      generateReleaseNotes API_KEY generateContent prompt = Inr unavailableNotes)
   \<and> (API_KEY = Some k \<and> k \<noteq> [] \<and> generateContent prompt = Inr text \<longrightarrow>
      generateReleaseNotes API_KEY generateContent prompt = Inr text)
   \<and> (API_KEY = Some k \<and> k \<noteq> [] \<and> generateContent prompt = Inl (ErrorInstance m) \<longrightarrow>
      generateReleaseNotes API_KEY generateContent prompt = Inl (''Failed to generate content: '' @ m))
   \<and> (API_KEY = Some k \<and> k \<noteq> [] \<and> generateContent prompt = Inl (OtherValue m) \<longrightarrow>
      generateReleaseNotes API_KEY generateContent prompt = Inl (''Failed to generate content: '' @ m))"
  by (auto simp: generateReleaseNotes_def)

theorem generateReleaseNotes_outcomes_witness:
  "generateReleaseNotes None quotaExceeded ''Generate release notes'' = Inr unavailableNotes
   \<and> quotaExceeded ''Generate release notes'' = Inl (ErrorInstance ''quota exceeded'')
   \<and> generateReleaseNotes (Some ''key'') quotaExceeded ''Generate release notes''
       = Inl (''Failed to generate content: '' @ ''quota exceeded'')"
proof -
  have q: "quotaExceeded ''Generate release notes'' = Inl (ErrorInstance ''quota exceeded'')"
    by (simp add: quotaExceeded_def)
  have a: "generateReleaseNotes None quotaExceeded ''Generate release notes'' = Inr unavailableNotes"
    using generateReleaseNotes_outcomes [where API_KEY = None and generateContent = quotaExceeded
        and prompt = "''Generate release notes''"]
    by blast
  have b: "generateReleaseNotes (Some ''key'') quotaExceeded ''Generate release notes''
       = Inl (''Failed to generate content: '' @ ''quota exceeded'')"
    using q generateReleaseNotes_outcomes [where API_KEY = "Some ''key''" and k = "''key''"
        and generateContent = quotaExceeded and prompt = "''Generate release notes''"
        and m = "''quota exceeded''"]
    by simp
  show ?thesis
    using a q b by blast
qed

section \<open>Activating an environment\<close>

text \<open>
  Whatever the backend answers, \<^verbatim>\<open>updateVersionEnvironments\<close>, and with it
  \<^verbatim>\<open>toggleVersionEnvironment\<close>, leaves every cached version with another identifier as it was.
\<close>

lemma updateVersionEnvironments_other_versions:
  assumes "i < length (projects s)" and "j < length (versions (projects s ! i))"
    and "v_id (versions (projects s ! i) ! j) \<noteq> versionId"
  shows "versions (projects (fst (updateVersionEnvironments fetched projectId versionId s)) ! i) ! j
       = versions (projects s ! i) ! j"
  using assms
  by (cases "awaitData fetched")
     (simp_all add: updateVersionEnvironments_def beginOperation_def)

lemma toggleVersionEnvironment_other_versions:
  assumes "i < length (projects s)" and "j < length (versions (projects s ! i))"
    and "v_id (versions (projects s ! i) ! j) \<noteq> versionId"
  shows "versions (projects (toggleVersionEnvironment backend project versionId environment s) ! i) ! j
       = versions (projects s ! i) ! j"
  using assms
  by (simp add: toggleVersionEnvironment_def updateVersionEnvironments_other_versions Let_def
      split: option.splits)

text \<open>
  Claim C1. Activating an environment on a version removes it from every other version
  of the same platform in the project, so that at most one version per project and
  platform is active in it; in the scenario, activating Staging on V2 ends with V1
  active nowhere and V2 active in Staging. The theorem evaluates
  \<^verbatim>\<open>toggleVersionEnvironment\<close> on the scenario: the one request it sends is for V2, the
  cached record of V1 keeps Staging, and two Android versions are active in Staging
  afterwards.
\<close>

theorem toggleVersionEnvironment_scenario:
  "projects (toggleVersionEnvironment scenarioBackend (Some scenarioP) ''V2'' Staging scenarioState)
     = [scenarioP\<lparr>versions := [scenarioV2\<lparr>activeEnvironments := [Staging]\<rparr>, scenarioV1]\<rparr>]
   \<and> activeEnvironments scenarioV1 = [Staging]
   \<and> platform scenarioV1 = platform scenarioV2
   \<and> map (activeIn Staging Android)
        (projects (toggleVersionEnvironment scenarioBackend (Some scenarioP) ''V2'' Staging scenarioState))
     = [[scenarioV2\<lparr>activeEnvironments := [Staging]\<rparr>, scenarioV1]]"
proof -
  have vs: "versions scenarioP = [scenarioV2, scenarioV1]" and pid: "p_id scenarioP = ''P''"
    by (simp_all add: scenarioP_def)
  have v1: "v_id scenarioV1 = ''V1''" "activeEnvironments scenarioV1 = [Staging]"
      "platform scenarioV1 = Android"
    by (simp_all add: scenarioV1_def)
  have v2: "v_id scenarioV2 = ''V2''" "activeEnvironments scenarioV2 = []"
      "platform scenarioV2 = Android"
    by (simp_all add: scenarioV2_def)
  have reply: "scenarioBackend ''P'' ''V2'' [Staging]
      = Inr (Response 200 (Inr (Some (ApiBody None (scenarioV2\<lparr>activeEnvironments := [Staging]\<rparr>)))))"
    by (simp add: scenarioBackend_def vs pid v1 v2)
  have upd: "projects (fst (updateVersionEnvironments (scenarioBackend ''P'' ''V2'' [Staging])
        ''P'' ''V2'' scenarioState))
      = [scenarioP\<lparr>versions := [scenarioV2\<lparr>activeEnvironments := [Staging]\<rparr>, scenarioV1]\<rparr>]"
    by (simp add: reply updateVersionEnvironments_def awaitApi_def awaitData_def readData_def handleApiResponse_def ok_def
        beginOperation_def scenarioState_def Let_def vs pid v1 v2)
  have tog: "toggleVersionEnvironment scenarioBackend (Some scenarioP) ''V2'' Staging scenarioState
      = fst (updateVersionEnvironments (scenarioBackend ''P'' ''V2'' [Staging])
               ''P'' ''V2'' scenarioState)"
    by (simp add: toggleVersionEnvironment_def Let_def vs pid v1 v2)
  show ?thesis
    by (simp add: tog upd activeIn_def v1 v2)
qed

section \<open>Replacing the environments of a version\<close>

text \<open>
  Claim C5, as stated: after a successful \<^verbatim>\<open>updateVersionEnvironments\<close> the target version's
  set of active environments is the server-confirmed one, and the container alters no
  other version's record and no other field of the projects collection. The container
  puts the whole record the server returned in the place of the target's entry, so the
  target's other fields change with it: answered with a record of another identifier,
  platform and version name, the cached entry of V1 takes all three.
\<close>

theorem updateVersionEnvironments_replaces_record:
  "versions (projects (fst (updateVersionEnvironments
       (Inr (Response 200 (Inr (Some (ApiBody None relabelledV1))))) ''P'' ''V1'' scenarioState)) ! 0)
     = [scenarioV2, relabelledV1]
   \<and> versions (projects scenarioState ! 0) = [scenarioV2, scenarioV1]
   \<and> v_id scenarioV1 = ''V1'' \<and> v_id relabelledV1 = ''V9''
   \<and> platform scenarioV1 = Android \<and> platform relabelledV1 = iOS
   \<and> versionName scenarioV1 = ''1.0.0'' \<and> versionName relabelledV1 = ''9.9.9''"
proof -
  have ps: "projects scenarioState = [scenarioP]"
    by (simp add: scenarioState_def)
  have vs: "versions scenarioP = [scenarioV2, scenarioV1]" and pid: "p_id scenarioP = ''P''"
    by (simp_all add: scenarioP_def)
  have v1: "v_id scenarioV1 = ''V1''" "platform scenarioV1 = Android"
      "versionName scenarioV1 = ''1.0.0''"
    by (simp_all add: scenarioV1_def)
  have v2: "v_id scenarioV2 = ''V2''"
    by (simp add: scenarioV2_def)
  have v9: "v_id relabelledV1 = ''V9''" "platform relabelledV1 = iOS"
      "versionName relabelledV1 = ''9.9.9''"
    by (simp_all add: relabelledV1_def)
  have run: "projects (fst (updateVersionEnvironments
        (Inr (Response 200 (Inr (Some (ApiBody None relabelledV1))))) ''P'' ''V1'' scenarioState))
      = [scenarioP\<lparr>versions := [scenarioV2, relabelledV1]\<rparr>]"
    by (simp add: updateVersionEnvironments_def awaitData_def readData_def awaitApi_def
        handleApiResponse_def ok_def beginOperation_def Let_def ps vs pid v1 v2)
  show ?thesis
    by (simp add: run ps vs v1 v9)
qed

text \<open>
  Claim C5, amended. After a successful \<^verbatim>\<open>updateVersionEnvironments(projectId, versionId, envs)\<close>
  the entry of the target version holds the whole record the server returned: its set of
  active environments is exactly the server-confirmed one, and its other fields are those
  of the server's record. The container changes nothing else: the list of projects and
  every list of versions keep their length and order, every project keeps its fields
  other than \<^verbatim>\<open>versions\<close>, projects with another identifier are untouched, and every
  version with another identifier, in any project, keeps its record.
\<close>

theorem updateVersionEnvironments_frame:
  assumes "ok response" and "json response = Inr (Some body)"
    and "updateVersionEnvironments (Inr response) projectId versionId s = (s', r)"
  shows "r = Some (data body)
       \<and> length (projects s') = length (projects s)
       \<and> (\<forall>i<length (projects s).
             length (versions (projects s' ! i)) = length (versions (projects s ! i))
           \<and> projects s' ! i = (projects s ! i)\<lparr>versions := versions (projects s' ! i)\<rparr>
           \<and> (p_id (projects s ! i) \<noteq> projectId \<longrightarrow> projects s' ! i = projects s ! i)
           \<and> (\<forall>j<length (versions (projects s ! i)).
                 (p_id (projects s ! i) = projectId \<and> v_id (versions (projects s ! i) ! j) = versionId
                    \<longrightarrow> versions (projects s' ! i) ! j = data body
                      \<and> activeEnvironments (versions (projects s' ! i) ! j)
                          = activeEnvironments (data body))
               \<and> (v_id (versions (projects s ! i) ! j) \<noteq> versionId
                    \<longrightarrow> versions (projects s' ! i) ! j = versions (projects s ! i) ! j)))"
proof -
  have run: "updateVersionEnvironments (Inr response) projectId versionId s
      = (s\<lparr>loading := False, error := None,
            projects := map (\<lambda>p. if p_id p = projectId
                                  then p\<lparr>versions := map (\<lambda>v. if v_id v = versionId then data body else v)
                                                         (versions p)\<rparr>
                                  else p) (projects s)\<rparr>,
         Some (data body))"
    using assms(1,2)
    by (simp add: updateVersionEnvironments_def awaitApi_success awaitData_success beginOperation_def Let_def)
  from assms(3) have r: "r = Some (data body)"
    and s': "projects s' = map (\<lambda>p. if p_id p = projectId
                                  then p\<lparr>versions := map (\<lambda>v. if v_id v = versionId then data body else v)
                                                         (versions p)\<rparr>
                                  else p) (projects s)"
    unfolding run by auto
  show ?thesis
    unfolding s' r by simp
qed

theorem updateVersionEnvironments_frame_witness:
  "ok (Response 200 (Inr (Some (ApiBody None (scenarioV2\<lparr>activeEnvironments := [Staging]\<rparr>)))))
   \<and> versions (projects (fst (updateVersionEnvironments
        (Inr (Response 200 (Inr (Some (ApiBody None (scenarioV2\<lparr>activeEnvironments := [Staging]\<rparr>))))))
        ''P'' ''V2'' scenarioState)) ! 0) ! 0 = scenarioV2\<lparr>activeEnvironments := [Staging]\<rparr>
   \<and> versions (projects (fst (updateVersionEnvironments
        (Inr (Response 200 (Inr (Some (ApiBody None (scenarioV2\<lparr>activeEnvironments := [Staging]\<rparr>))))))
        ''P'' ''V2'' scenarioState)) ! 0) ! 1 = scenarioV1"
proof -
  let ?v = "scenarioV2\<lparr>activeEnvironments := [Staging]\<rparr>"
  let ?run = "updateVersionEnvironments (Inr (Response 200 (Inr (Some (ApiBody None ?v))))) ''P'' ''V2'' scenarioState"
  have h: "ok (Response 200 (Inr (Some (ApiBody None ?v))))"
    by (simp add: ok_def)
  have ps: "projects scenarioState = [scenarioP]"
    by (simp add: scenarioState_def)
  have vs: "versions scenarioP = [scenarioV2, scenarioV1]" and pid: "p_id scenarioP = ''P''"
    by (simp_all add: scenarioP_def)
  have ids: "v_id scenarioV2 = ''V2''" "v_id scenarioV1 = ''V1''"
    by (simp_all add: scenarioV2_def scenarioV1_def)
  have e: "?run = (fst ?run, snd ?run)"
    by simp
  note t = updateVersionEnvironments_frame [OF h _ e, of "ApiBody None ?v"]
  then have "versions (projects (fst ?run) ! 0) ! 0 = ?v
      \<and> versions (projects (fst ?run) ! 0) ! 1 = scenarioV1"
    by (simp add: ps vs pid ids)
  with h show ?thesis
    by simp
qed

section \<open>Adding a version\<close>

text \<open>
  Claim C3, as stated: after a successful \<^verbatim>\<open>addAppVersion\<close> the version the server returned
  is the first entry of the target project's versions. The versions are sorted by upload
  date, so a returned version that is older than a cached one stands after it: added to
  the scenario's project, a version with an earlier upload date comes last.
\<close>

theorem addAppVersion_newest_not_first:
  "projects (fst (addAppVersion (Inr (Response 201 (Inr (Some (ApiBody None scenarioV0))))) ''P'' scenarioState))
     = [scenarioP\<lparr>versions := [scenarioV2, scenarioV1, scenarioV0]\<rparr>]
   \<and> snd (addAppVersion (Inr (Response 201 (Inr (Some (ApiBody None scenarioV0))))) ''P'' scenarioState)
     = Some scenarioV0
   \<and> scenarioV2 \<noteq> scenarioV0"
proof -
  have vs: "versions scenarioP = [scenarioV2, scenarioV1]" and pid: "p_id scenarioP = ''P''"
    by (simp_all add: scenarioP_def)
  have d: "uploadDate scenarioV0 = Some 500" "uploadDate scenarioV1 = Some 1000"
      "uploadDate scenarioV2 = Some 2000"
    by (simp_all add: scenarioV0_def scenarioV1_def scenarioV2_def)
  have srt: "sortArray byUploadDate [scenarioV0, scenarioV2, scenarioV1]
      = [scenarioV2, scenarioV1, scenarioV0]"
    by (simp add: staysBefore_def byUploadDate_def d)
  have ne: "scenarioV2 \<noteq> scenarioV0"
    using d by auto
  have run: "addAppVersion (Inr (Response 201 (Inr (Some (ApiBody None scenarioV0))))) ''P'' scenarioState
      = (\<lparr>projects = [scenarioP\<lparr>versions := sortArray byUploadDate [scenarioV0, scenarioV2, scenarioV1]\<rparr>],
          loading = False, error = None\<rparr>, Some scenarioV0)"
    by (simp add: addAppVersion_def awaitApi_def awaitData_def readData_def handleApiResponse_def ok_def beginOperation_def
        Let_def scenarioState_def vs pid del: sortArray.simps)
  show ?thesis
    using ne by (simp add: run srt del: sortArray.simps)
qed

text \<open>
  Claim C3, amended. For every cached project targeted by a successful
  \<^verbatim>\<open>addAppVersion(projectId, data, file)\<close>: afterwards the project's versions are the version
  the server returned together with the versions it had; they stand in descending order
  of upload date when all the upload dates are dates; the returned version is the first
  entry, with the earlier versions following in descending order, when its upload date is
  not before any of theirs, and the earlier versions then keep their places if they were
  in descending order already; and the value returned is that new version. On a failing
  outcome the return is null.
\<close>

theorem addAppVersion_sorted:
  assumes "ok response" and "json response = Inr (Some body)"
    and "addAppVersion (Inr response) projectId s = (s', r)"
    and "i < length (projects s)" and "p_id (projects s ! i) = projectId"
  shows "r = Some (data body)
       \<and> mset (versions (projects s' ! i)) = add_mset (data body) (mset (versions (projects s ! i)))
       \<and> ((\<forall>v\<in>set (data body # versions (projects s ! i)). uploadDate v \<noteq> None) \<longrightarrow>
            sorted_wrt notOlder (versions (projects s' ! i)))
       \<and> ((\<forall>v\<in>set (versions (projects s ! i)). notOlder (data body) v) \<longrightarrow>
            versions (projects s' ! i)
              = data body # sortArray byUploadDate (versions (projects s ! i)))
       \<and> ((\<forall>v\<in>set (versions (projects s ! i)). notOlder (data body) v)
            \<and> sorted_wrt notOlder (versions (projects s ! i)) \<longrightarrow>
            versions (projects s' ! i) = data body # versions (projects s ! i))
       \<and> (failing fetched \<longrightarrow> snd (addAppVersion fetched projectId s) = None)"
proof -
  let ?old = "versions (projects s ! i)"
  have run: "addAppVersion (Inr response) projectId s
      = (s\<lparr>loading := False, error := None,
            projects := map (\<lambda>p. if p_id p = projectId
                                  then p\<lparr>versions := sortArray byUploadDate (data body # versions p)\<rparr>
                                  else p) (projects s)\<rparr>,
         Some (data body))"
    using assms(1,2)
    by (simp add: addAppVersion_def awaitData_success beginOperation_def Let_def del: sortArray.simps)
  from assms(3) have r: "r = Some (data body)"
    and s': "projects s' = map (\<lambda>p. if p_id p = projectId
                                  then p\<lparr>versions := sortArray byUploadDate (data body # versions p)\<rparr>
                                  else p) (projects s)"
    unfolding run by auto
  have new: "versions (projects s' ! i) = sortArray byUploadDate (data body # ?old)"
    using assms(4,5) by (simp add: s' del: sortArray.simps)
  have m: "mset (versions (projects s' ! i)) = add_mset (data body) (mset ?old)"
    unfolding new by (simp add: mset_sortArray mset_insertSorted)
  have srt: "(\<forall>v\<in>set (data body # ?old). uploadDate v \<noteq> None) \<longrightarrow>
      sorted_wrt notOlder (versions (projects s' ! i))"
    unfolding new using sorted_sortArray by blast
  have first: "(\<forall>v\<in>set ?old. notOlder (data body) v) \<longrightarrow>
      versions (projects s' ! i) = data body # sortArray byUploadDate ?old"
  proof
    assume newest: "\<forall>v\<in>set ?old. notOlder (data body) v"
    have "insertSorted byUploadDate (data body) (sortArray byUploadDate ?old)
        = data body # sortArray byUploadDate ?old"
      using newest by (intro insertSorted_newest) (simp add: set_sortArray)
    then show "versions (projects s' ! i) = data body # sortArray byUploadDate ?old"
      by (simp add: new)
  qed
  have kept: "(\<forall>v\<in>set ?old. notOlder (data body) v) \<and> sorted_wrt notOlder ?old \<longrightarrow>
      versions (projects s' ! i) = data body # ?old"
    using first sortArray_sorted by auto
  have fl: "failing fetched \<longrightarrow> snd (addAppVersion fetched projectId s) = None"
  proof
    assume "failing fetched"
    then obtain e where "awaitData fetched = Inl e"
      using failing_awaitData by blast
    then show "snd (addAppVersion fetched projectId s) = None"
      by (simp add: addAppVersion_def)
  qed
  show ?thesis
    using r m srt first kept fl by blast
qed

theorem addAppVersion_sorted_witness:
  "ok (Response 201 (Inr (Some (ApiBody None scenarioV3))))
   \<and> p_id (projects scenarioState ! 0) = ''P''
   \<and> map uploadDate (scenarioV3 # versions (projects scenarioState ! 0))
       = [Some 3000, Some 2000, Some 1000]
   \<and> versions (projects (fst (addAppVersion (Inr (Response 201 (Inr (Some (ApiBody None scenarioV3)))))
        ''P'' scenarioState)) ! 0) = [scenarioV3, scenarioV2, scenarioV1]
   \<and> sorted_wrt notOlder (versions (projects (fst (addAppVersion
        (Inr (Response 201 (Inr (Some (ApiBody None scenarioV3))))) ''P'' scenarioState)) ! 0))
   \<and> snd (addAppVersion (Inr (Response 201 (Inr (Some (ApiBody None scenarioV3))))) ''P'' scenarioState)
       = Some scenarioV3
   \<and> failing (transportFailure :: AppVersion fetched)
   \<and> snd (addAppVersion transportFailure ''P'' scenarioState) = None"
proof -
  let ?run = "addAppVersion (Inr (Response 201 (Inr (Some (ApiBody None scenarioV3))))) ''P'' scenarioState"
  have h: "ok (Response 201 (Inr (Some (ApiBody None scenarioV3))))"
    by (simp add: ok_def)
  have ps: "projects scenarioState = [scenarioP]"
    by (simp add: scenarioState_def)
  have vs: "versions scenarioP = [scenarioV2, scenarioV1]" and pid: "p_id scenarioP = ''P''"
    by (simp_all add: scenarioP_def)
  have d: "uploadDate scenarioV3 = Some 3000" "uploadDate scenarioV1 = Some 1000"
      "uploadDate scenarioV2 = Some 2000"
    by (simp_all add: scenarioV3_def scenarioV1_def scenarioV2_def)
  have f: "failing (transportFailure :: AppVersion fetched)"
    by (simp add: failing_def transportFailure_def)
  have e: "?run = (fst ?run, snd ?run)"
    by simp
  have i: "0 < length (projects scenarioState)" and p: "p_id (projects scenarioState ! 0) = ''P''"
    by (simp_all add: ps pid)
  have valid: "\<forall>v\<in>set (data (ApiBody None scenarioV3) # versions (projects scenarioState ! 0)).
      uploadDate v \<noteq> None"
    by (simp add: ps vs d)
  have newest: "\<forall>v\<in>set (versions (projects scenarioState ! 0)).
      notOlder (data (ApiBody None scenarioV3)) v"
    by (simp add: ps vs d notOlder_def)
  have old: "sorted_wrt notOlder (versions (projects scenarioState ! 0))"
    by (simp add: ps vs d notOlder_def)
  have j: "json (Response 201 (Inr (Some (ApiBody None scenarioV3)))) = Inr (Some (ApiBody None scenarioV3))"
    by simp
  note t = addAppVersion_sorted [OF h j e i p, of transportFailure]
  from t valid have c3: "sorted_wrt notOlder (versions (projects (fst ?run) ! 0))"
    by blast
  from t newest old have c5: "versions (projects (fst ?run) ! 0)
      = data (ApiBody None scenarioV3) # versions (projects scenarioState ! 0)"
    by blast
  from t have c1: "snd ?run = Some (data (ApiBody None scenarioV3))"
    by blast
  from t f have c6: "snd (addAppVersion transportFailure ''P'' scenarioState) = None"
    by blast
  show ?thesis
    using h p f c1 c3 c5 c6 by (simp add: ps vs d)
qed

end
